theory Spec2Isabelle
  imports Complex_Main "HOL-Library.Word" "HOL-Library.Sublist" "HOL-Library.Log_Nat"
begin

section \<open>JavaScript values\<close>

subsection \<open>Strings\<close>

text \<open>
  A JavaScript string is a sequence of UTF-16 code units. ASCII literals of the source
  are written with \<open>str\<close>; the Japanese literals are given by their code units.
\<close>

type_synonym jschar = "16 word"
type_synonym jsstring = "jschar list"

definition str :: "string \<Rightarrow> jsstring" where
  "str s = map of_char s"

text \<open>
  \<^verbatim>\<open>String.prototype.trim\<close> removes leading and trailing white space and line
  terminators: TAB, LF, VT, FF, CR, SP, NBSP, U+1680, U+2000 to U+200A, U+2028, U+2029,
  U+202F, U+205F, U+3000 (the ideographic space) and U+FEFF.
\<close>

definition isWhiteSpace :: "jschar \<Rightarrow> bool" where
  "isWhiteSpace c \<longleftrightarrow>
     c \<in> {0x9, 0xA, 0xB, 0xC, 0xD, 0x20, 0xA0, 0x1680, 0x2028, 0x2029, 0x202F, 0x205F,
          0x3000, 0xFEFF}
     \<or> (0x2000 \<le> c \<and> c \<le> 0x200A)"

definition trim :: "jsstring \<Rightarrow> jsstring" where
  "trim s = rev (dropWhile isWhiteSpace (rev (dropWhile isWhiteSpace s)))"

subsection \<open>Numbers\<close>

text \<open>
  A JavaScript number is an IEEE 754 double: a finite number, a zero of either sign, an
  infinity or NaN. \<open>Num x\<close> is the finite double of value \<open>x\<close>, \<open>Num 0\<close> the
  positive zero, \<open>NegZero\<close> the negative one. The doubles are the numbers \<open>n * 2^e\<close>
  with \<open>|n| < 2^53\<close> and \<open>-1074 \<le> e \<le> 971\<close>; an operation computes the exact
  result and rounds it to the nearest double, a tie going to the even mantissa.
\<close>

datatype jsnum = Num real | NegZero | PosInfinity | NegInfinity | NaN

fun is_zero :: "jsnum \<Rightarrow> bool" where
  "is_zero (Num x) = (x = 0)"
| "is_zero NegZero = True"
| "is_zero a = False"

fun is_infinity :: "jsnum \<Rightarrow> bool" where
  "is_infinity PosInfinity = True"
| "is_infinity NegInfinity = True"
| "is_infinity a = False"

text \<open>The sign bit, and the value of a finite number.\<close>

fun negative :: "jsnum \<Rightarrow> bool" where
  "negative (Num x) = (x < 0)"
| "negative NegZero = True"
| "negative NegInfinity = True"
| "negative a = False"

fun finite_value :: "jsnum \<Rightarrow> real" where
  "finite_value (Num x) = x"
| "finite_value a = 0"

definition zero_of :: "bool \<Rightarrow> jsnum" where
  "zero_of neg = (if neg then NegZero else Num 0)"

definition infinity_of :: "bool \<Rightarrow> jsnum" where
  "infinity_of neg = (if neg then NegInfinity else PosInfinity)"

text \<open>
  Powers of two with an integer exponent, and the binary exponent of a number other than
  0: the \<open>e\<close> with \<open>2^e \<le> |x| < 2^(e+1)\<close>, from the bit length of the integer part of
  \<open>|x|\<close>, or of its reciprocal when \<open>|x| < 1\<close>.
\<close>

definition pow2 :: "int \<Rightarrow> real" where
  "pow2 e = (if 0 \<le> e then 2 ^ nat e else 1 / 2 ^ nat (- e))"

definition exponent :: "real \<Rightarrow> int" where
  "exponent x =
     (if 1 \<le> \<bar>x\<bar> then bitlen \<lfloor>\<bar>x\<bar>\<rfloor> - 1 else - bitlen (\<lceil>1 / \<bar>x\<bar>\<rceil> - 1))"

text \<open>The nearest integer, a tie going to the even one.\<close>

definition round_half_even :: "real \<Rightarrow> int" where
  "round_half_even r =
     (let f = \<lfloor>r\<rfloor>; d = r - of_int f in
      if d < 1 / 2 then f else if 1 / 2 < d then f + 1 else if even f then f else f + 1)"

text \<open>
  Rounding an exact result to a double. The unit in the last place of a number of binary
  exponent \<open>e\<close> is \<open>2^(e - 52)\<close>, and \<open>2^(-1074)\<close> below the normal range; the
  result is the multiple of it nearest to \<open>x\<close>. A result of magnitude \<open>2^1024\<close> or
  more is the infinity, a result 0 the zero, of the sign of the exact result.
\<close>

definition round_to_double :: "bool \<Rightarrow> real \<Rightarrow> jsnum" where
  "round_to_double neg x =
     (if x = 0 then zero_of neg
      else
        (let e = max (exponent x) (- 1022);
             ulp = pow2 (e - 52);
             y = of_int (round_half_even (x / ulp)) * ulp
         in if pow2 1024 \<le> \<bar>y\<bar> then infinity_of neg
            else if y = 0 then zero_of neg
            else Num y))"

text \<open>The operators \<^verbatim>\<open>*\<close> and \<^verbatim>\<open>/\<close>. Neither throws: a zero divisor gives
  an infinity or NaN.\<close>

definition js_times :: "jsnum \<Rightarrow> jsnum \<Rightarrow> jsnum" where
  "js_times a b =
     (if a = NaN \<or> b = NaN then NaN
      else if (is_zero a \<and> is_infinity b) \<or> (is_infinity a \<and> is_zero b) then NaN
      else if is_infinity a \<or> is_infinity b then infinity_of (negative a \<noteq> negative b)
      else round_to_double (negative a \<noteq> negative b) (finite_value a * finite_value b))"

definition js_divide :: "jsnum \<Rightarrow> jsnum \<Rightarrow> jsnum" where
  "js_divide a b =
     (if a = NaN \<or> b = NaN then NaN
      else if (is_zero a \<and> is_zero b) \<or> (is_infinity a \<and> is_infinity b) then NaN
      else if is_infinity a \<or> is_zero b then infinity_of (negative a \<noteq> negative b)
      else if is_infinity b then zero_of (negative a \<noteq> negative b)
      else round_to_double (negative a \<noteq> negative b) (finite_value a / finite_value b))"

text \<open>
  \<^verbatim>\<open>Math.round\<close>: the integer nearest to the number, a tie going up; the negative
  zero for a number from -0.5 up to, but not including, 0; itself for a zero, an infinity
  and NaN.
\<close>

fun Math_round :: "jsnum \<Rightarrow> jsnum" where
  "Math_round (Num x) =
     (if - 1 / 2 \<le> x \<and> x < 0 then NegZero else Num (of_int \<lfloor>x + 1 / 2\<rfloor>))"
| "Math_round a = a"

section \<open>Common utilities\<close>

text \<open>
  \<^verbatim>\<open>
  function calculatePercentage(value, total) {
      if (total === 0) return 0;
      return Math.round((value / total) * 100);
  }
  \<close>
  The arguments are numbers; \<^verbatim>\<open>total === 0\<close> holds for both zeros. To make a
  division by zero observable, the division of the model is checked: it yields \<open>None\<close>
  where the divisor is a zero, and the function yields \<open>None\<close> with it.
\<close>

definition divide_checked :: "jsnum \<Rightarrow> jsnum \<Rightarrow> jsnum option" where
  "divide_checked a b = (if is_zero b then None else Some (js_divide a b))"

definition calculatePercentage :: "jsnum \<Rightarrow> jsnum \<Rightarrow> jsnum option" where
  "calculatePercentage val tot =
     (if is_zero tot then Some (Num 0)
      else map_option (\<lambda>quotient. Math_round (js_times quotient (Num 100)))
             (divide_checked val tot))"

section \<open>The consultation page\<close>

subsection \<open>Data\<close>

text \<open>
  An entry of the consultation history, as \<open>addToHistory\<close> builds it. The timestamp
  \<^verbatim>\<open>new Date().toISOString()\<close> is the instant of the clock, in milliseconds.
\<close>

record history_item =
  timestamp :: nat
  question :: jsstring
  answer :: jsstring
  tag :: jsstring

datatype sender = User | Ai

text \<open>A message bubble of the chat container: who speaks, the text, the spinner, the
  \<^verbatim>\<open>text-danger\<close> class and the time shown.\<close>

record chat_message =
  msg_type :: sender
  msg_text :: jsstring
  msg_loading :: bool
  msg_danger :: bool
  msg_time :: nat

text \<open>
  The notifications of the page, by their text: "enter a question", "enter a question
  or attach an image", "the image must be at most 5MB", "choose an image file",
  "consultation completed", "the consultation failed", "history cleared".
\<close>

datatype notice =
    NoticeEnterQuestion
  | NoticeEnterQuestionOrImage
  | NoticeImageTooLarge
  | NoticeNotAnImage
  | NoticeConsultationDone
  | NoticeConsultationError
  | NoticeHistoryCleared

datatype level = Info | Success | Warning | Danger

datatype log_entry = LogSaveError | LogLoadError | LogRemoveError

text \<open>What the history container shows: the markup of the template, the text "no
  consultation history", or one row (tag, timestamp, question) per recent entry.\<close>

datatype history_view =
    Template
  | NoHistoryText
  | Rows "(jsstring \<times> nat \<times> jsstring) list"

record image =
  file_size :: nat
  file_type :: jsstring

text \<open>A request \<^verbatim>\<open>POST /api/ai/consultation\<close>.\<close>

record request =
  rq_question :: jsstring
  rq_tag :: jsstring
  rq_image :: "image option"

text \<open>
  What the awaited request comes back with: a body whose status is \<^verbatim>\<open>success\<close>,
  with its answer; a body with another status, with its error; or an exception (the
  network failed, the body was not JSON), with its message.
\<close>

datatype response = StatusSuccess jsstring | StatusOther jsstring | Thrown jsstring

text \<open>
  The state of the page: the fields of the manager (\<open>selectedTag\<close>, \<open>chatHistory\<close>,
  \<open>maxHistoryLength\<close>), the attached image of \<^verbatim>\<open>imageAttachment\<close>, the question
  input, the chat container and the history container of the document (\<open>None\<close> where
  \<^verbatim>\<open>getElementById\<close> finds none), the item \<^verbatim>\<open>ai_consultation_history\<close> of the local storage (\<open>None\<close> when the
  key is absent; the JSON text is identified with the array it encodes), and what the page
  has emitted: notifications, console errors and requests.
\<close>

record page =
  selectedTag :: jsstring
  chatHistory :: "history_item list"
  maxHistoryLength :: nat
  attachedImage :: "image option"
  questionInput :: "jsstring option"
  chatContainer :: "chat_message list option"
  historyContainer :: "history_view option"
  localStorage :: "history_item list option"
  notifications :: "(notice \<times> level) list"
  console :: "log_entry list"
  requests :: "request list"

subsection \<open>Common utilities of the page\<close>

definition showNotification :: "notice \<Rightarrow> level \<Rightarrow> page \<Rightarrow> page" where
  "showNotification message type s = s\<lparr>notifications := notifications s @ [(message, type)]\<rparr>"

text \<open>
  The local storage can throw (quota exceeded, storage disabled); the flag of each
  operation says whether the browser lets it succeed. The wrappers of \<^verbatim>\<open>storage\<close>
  catch the exception and log it.
\<close>

datatype storage_error = StorageError

definition localStorage_setItem :: "bool \<Rightarrow> history_item list \<Rightarrow> page \<Rightarrow> storage_error + page" where
  "localStorage_setItem ok v s = (if ok then Inr (s\<lparr>localStorage := Some v\<rparr>) else Inl StorageError)"

definition localStorage_getItem :: "bool \<Rightarrow> page \<Rightarrow> storage_error + history_item list option" where
  "localStorage_getItem ok s = (if ok then Inr (localStorage s) else Inl StorageError)"

definition localStorage_removeItem :: "bool \<Rightarrow> page \<Rightarrow> storage_error + page" where
  "localStorage_removeItem ok s = (if ok then Inr (s\<lparr>localStorage := None\<rparr>) else Inl StorageError)"

definition storage_set :: "bool \<Rightarrow> history_item list \<Rightarrow> page \<Rightarrow> page" where
  "storage_set ok v s =
     (case localStorage_setItem ok v s of
        Inr s' \<Rightarrow> s'
      | Inl error \<Rightarrow> s\<lparr>console := console s @ [LogSaveError]\<rparr>)"

definition storage_get :: "bool \<Rightarrow> history_item list \<Rightarrow> page \<Rightarrow> history_item list \<times> page" where
  "storage_get ok defaultValue s =
     (case localStorage_getItem ok s of
        Inr item \<Rightarrow> (case item of Some v \<Rightarrow> (v, s) | None \<Rightarrow> (defaultValue, s))
      | Inl error \<Rightarrow> (defaultValue, s\<lparr>console := console s @ [LogLoadError]\<rparr>))"

definition storage_remove :: "bool \<Rightarrow> page \<Rightarrow> page" where
  "storage_remove ok s =
     (case localStorage_removeItem ok s of
        Inr s' \<Rightarrow> s'
      | Inl error \<Rightarrow> s\<lparr>console := console s @ [LogRemoveError]\<rparr>)"

subsection \<open>Image attachment\<close>

definition handleImageSelect :: "image option \<Rightarrow> page \<Rightarrow> page" where
  "handleImageSelect file s =
     (case file of
        None \<Rightarrow> s
      | Some f \<Rightarrow>
          if file_size f > 5 * 1024 * 1024 then showNotification NoticeImageTooLarge Warning s
          else if \<not> prefix (str ''image/'') (file_type f) then showNotification NoticeNotAnImage Warning s
          else s\<lparr>attachedImage := Some f\<rparr>)"

definition removeImage :: "page \<Rightarrow> page" where
  "removeImage s = s\<lparr>attachedImage := None\<rparr>"

definition getAttachedImage :: "page \<Rightarrow> image option" where
  "getAttachedImage s = attachedImage s"

subsection \<open>The consultation manager\<close>

definition tag_general :: jsstring where "tag_general = str ''general''"
definition tag_harvest :: jsstring where "tag_harvest = str ''harvest''"
definition tag_disease :: jsstring where "tag_disease = str ''disease''"
definition tag_cooking :: jsstring where "tag_cooking = str ''cooking''"

text \<open>The constructor sets the three fields of the manager; the page is as it was.\<close>

definition constructor :: "page \<Rightarrow> page" where
  "constructor s = s\<lparr>selectedTag := tag_general, chatHistory := [], maxHistoryLength := 50\<rparr>"

text \<open>
  \<open>selectTag\<close> stores the tag. It then moves the class \<^verbatim>\<open>active\<close> from the tag
  items to the element its selector finds; that marking is presentation only, and the tag
  items are not part of the page of this model. The selector is built from the tag, and
  \<^verbatim>\<open>querySelector\<close> throws on a tag that makes it invalid: by then the tag is
  stored, so the fields of the model are the same either way, and the tags that
  \<open>selectDefaultTag\<close> and the quick actions select make valid selectors.
\<close>

definition selectTag :: "jsstring \<Rightarrow> page \<Rightarrow> page" where
  "selectTag t s = s\<lparr>selectedTag := t\<rparr>"

definition selectDefaultTag :: "page \<Rightarrow> page" where
  "selectDefaultTag s = selectTag tag_general s"

text \<open>
  \<open>addMessageToChat\<close> and \<open>removeLastMessage\<close> dereference the chat container without
  a check: without the element they throw a TypeError, the \<open>None\<close> of the model. The
  variant of a message only matters by whether it is \<^verbatim>\<open>'danger'\<close>.
\<close>

definition addMessageToChat :: "nat \<Rightarrow> sender \<Rightarrow> jsstring \<Rightarrow> bool \<Rightarrow> bool \<Rightarrow> page \<Rightarrow> page option" where
  "addMessageToChat now type message isLoading danger s =
     (case chatContainer s of
        None \<Rightarrow> None
      | Some messages \<Rightarrow>
          Some (s\<lparr>chatContainer := Some (messages @
                  [\<lparr>msg_type = type, msg_text = message, msg_loading = isLoading,
                    msg_danger = danger, msg_time = now\<rparr>])\<rparr>))"

definition removeLastMessage :: "page \<Rightarrow> page option" where
  "removeLastMessage s =
     (case chatContainer s of
        None \<Rightarrow> None
      | Some messages \<Rightarrow> Some (s\<lparr>chatContainer := Some (butlast messages)\<rparr>))"

text \<open>
  \<^verbatim>\<open>
  addToHistory(question, answer, tag) {
      const historyItem = { timestamp: new Date().toISOString(),
                            question: question, answer: answer, tag: tag };
      this.chatHistory.unshift(historyItem);
      if (this.chatHistory.length > this.maxHistoryLength) {
          this.chatHistory = this.chatHistory.slice(0, this.maxHistoryLength);
      }
      storage.set('ai_consultation_history', this.chatHistory);
  }
  \<close>
\<close>

definition addToHistory :: "nat \<Rightarrow> bool \<Rightarrow> jsstring \<Rightarrow> jsstring \<Rightarrow> jsstring \<Rightarrow> page \<Rightarrow> page" where
  "addToHistory now write_ok q a t s =
     (let historyItem = \<lparr>timestamp = now, question = q, answer = a, tag = t\<rparr>;
          unshifted = historyItem # chatHistory s;
          limited = (if length unshifted > maxHistoryLength s
                     then take (maxHistoryLength s) unshifted else unshifted)
      in storage_set write_ok limited (s\<lparr>chatHistory := limited\<rparr>))"

definition updateHistoryDisplay :: "page \<Rightarrow> page" where
  "updateHistoryDisplay s =
     (case historyContainer s of
        None \<Rightarrow> s
      | Some view \<Rightarrow>
          if length (chatHistory s) = 0 then s\<lparr>historyContainer := Some NoHistoryText\<rparr>
          else s\<lparr>historyContainer :=
                   Some (Rows (map (\<lambda>item. (tag item, timestamp item, question item))
                                   (take 5 (chatHistory s))))\<rparr>)"

definition loadConsultationHistory :: "bool \<Rightarrow> page \<Rightarrow> page" where
  "loadConsultationHistory read_ok s =
     (case storage_get read_ok [] s of
        (history, s') \<Rightarrow> updateHistoryDisplay (s'\<lparr>chatHistory := history\<rparr>))"

definition clearHistory :: "bool \<Rightarrow> page \<Rightarrow> page" where
  "clearHistory remove_ok s =
     showNotification NoticeHistoryCleared Info
       (updateHistoryDisplay (storage_remove remove_ok (s\<lparr>chatHistory := []\<rparr>)))"

text \<open>
  \<open>sendQuestion\<close> is asynchronous. Its first part runs up to the request and is
  \<open>sendQuestion\<close> below; what it does once the awaited request has come back is
  \<open>sendQuestion_resume\<close>, which runs on the state of the page at that later moment.
  The outcome says how a part ended: the promise was rejected by an uncaught TypeError,
  the function returned after its warning, the request is pending (with the question the
  rest of the function holds on to), or the function ran to its end, having shown an
  answer or an error.
\<close>

datatype outcome = Rejected | Warned | Pending jsstring | Completed | Errored

definition thinking :: jsstring where
  "thinking = [0x8003, 0x3048, 0x4E2D, 0x2E, 0x2E, 0x2E]"

definition error_prefix :: jsstring where
  "error_prefix = [0x30A8, 0x30E9, 0x30FC, 0x3A, 0x20]"

text \<open>
  The revision with image attachment:
  \<^verbatim>\<open>
  const question = questionInput.value.trim();
  const attachedImage = imageAttachment.getAttachedImage();
  if (!question && !attachedImage) {
      showNotification(..., 'warning');
      return;
  }
  this.addMessageToChat('user', question, false, attachedImage);
  questionInput.value = '';
  this.addMessageToChat('ai', ..., true);
  try { ... formData.append('question', question);
            formData.append('tag', this.selectedTag);
            if (attachedImage) formData.append('image', attachedImage);
            const response = await fetch('/api/ai/consultation', ...);
  \<close>
\<close>

definition sendQuestion :: "nat \<Rightarrow> page \<Rightarrow> page \<times> outcome" where
  "sendQuestion now s =
     (case questionInput s of
        None \<Rightarrow> (s, Rejected)
      | Some v \<Rightarrow>
          (let question = trim v; attached = getAttachedImage s in
           if question = [] \<and> attached = None
           then (showNotification NoticeEnterQuestionOrImage Warning s, Warned)
           else
             (case addMessageToChat now User question False False s of
                None \<Rightarrow> (s, Rejected)
              | Some s1 \<Rightarrow>
                  (case addMessageToChat now Ai thinking True False (s1\<lparr>questionInput := Some []\<rparr>) of
                     None \<Rightarrow> (s1\<lparr>questionInput := Some []\<rparr>, Rejected)
                   | Some s2 \<Rightarrow>
                       (s2\<lparr>requests := requests s2 @
                              [\<lparr>rq_question = question, rq_tag = selectedTag s2,
                                rq_image = attached\<rparr>]\<rparr>,
                        Pending question)))))"

text \<open>
  After the await. An exception inside \<^verbatim>\<open>try\<close> goes to \<^verbatim>\<open>catch\<close>, which
  removes the loading message and shows the error; without a chat container the handler
  throws again and the promise is rejected with the page as it was.
\<close>

definition sendQuestion_resume :: "nat \<Rightarrow> bool \<Rightarrow> jsstring \<Rightarrow> response \<Rightarrow> page \<Rightarrow> page \<times> outcome" where
  "sendQuestion_resume now write_ok q r s =
     (case removeLastMessage s of
        None \<Rightarrow> (s, Rejected)
      | Some s1 \<Rightarrow>
          (case r of
             StatusSuccess a \<Rightarrow>
               (case addMessageToChat now Ai a False False s1 of
                  None \<Rightarrow> (s, Rejected)
                | Some s2 \<Rightarrow>
                    (removeImage
                       (showNotification NoticeConsultationDone Success
                          (addToHistory now write_ok q a (selectedTag s2) s2)),
                     Completed))
           | StatusOther e \<Rightarrow>
               (case addMessageToChat now Ai (error_prefix @ e) False True s1 of
                  None \<Rightarrow> (s, Rejected)
                | Some s2 \<Rightarrow>
                    (removeImage (showNotification NoticeConsultationError Danger s2), Errored))
           | Thrown m \<Rightarrow>
               (case addMessageToChat now Ai (error_prefix @ m) False True s1 of
                  None \<Rightarrow> (s, Rejected)
                | Some s2 \<Rightarrow> (showNotification NoticeConsultationError Danger s2, Errored))))"

text \<open>
  The revision without image attachment (\<^verbatim>\<open>src/web/static/js/ai-consultation.js\<close>):
  the guard is \<^verbatim>\<open>if (!question)\<close>, the request is a JSON body with the question
  and the tag, and no image is cleared at the end.
\<close>

definition sendQuestion_text :: "nat \<Rightarrow> page \<Rightarrow> page \<times> outcome" where
  "sendQuestion_text now s =
     (case questionInput s of
        None \<Rightarrow> (s, Rejected)
      | Some v \<Rightarrow>
          (let question = trim v in
           if question = []
           then (showNotification NoticeEnterQuestion Warning s, Warned)
           else
             (case addMessageToChat now User question False False s of
                None \<Rightarrow> (s, Rejected)
              | Some s1 \<Rightarrow>
                  (case addMessageToChat now Ai thinking True False (s1\<lparr>questionInput := Some []\<rparr>) of
                     None \<Rightarrow> (s1\<lparr>questionInput := Some []\<rparr>, Rejected)
                   | Some s2 \<Rightarrow>
                       (s2\<lparr>requests := requests s2 @
                              [\<lparr>rq_question = question, rq_tag = selectedTag s2,
                                rq_image = None\<rparr>]\<rparr>,
                        Pending question)))))"

definition sendQuestion_text_resume :: "nat \<Rightarrow> bool \<Rightarrow> jsstring \<Rightarrow> response \<Rightarrow> page \<Rightarrow> page \<times> outcome" where
  "sendQuestion_text_resume now write_ok q r s =
     (case removeLastMessage s of
        None \<Rightarrow> (s, Rejected)
      | Some s1 \<Rightarrow>
          (case r of
             StatusSuccess a \<Rightarrow>
               (case addMessageToChat now Ai a False False s1 of
                  None \<Rightarrow> (s, Rejected)
                | Some s2 \<Rightarrow>
                    (showNotification NoticeConsultationDone Success
                       (addToHistory now write_ok q a (selectedTag s2) s2),
                     Completed))
           | StatusOther e \<Rightarrow>
               (case addMessageToChat now Ai (error_prefix @ e) False True s1 of
                  None \<Rightarrow> (s, Rejected)
                | Some s2 \<Rightarrow> (showNotification NoticeConsultationError Danger s2, Errored))
           | Thrown m \<Rightarrow>
               (case addMessageToChat now Ai (error_prefix @ m) False True s1 of
                  None \<Rightarrow> (s, Rejected)
                | Some s2 \<Rightarrow> (showNotification NoticeConsultationError Danger s2, Errored))))"

text \<open>The questions of the quick actions: to judge the harvest timing, to diagnose a
  disease, to give cooking examples.\<close>

definition harvest_question :: jsstring where
  "harvest_question =
     [0x73FE, 0x5728, 0x306E, 0x8C46, 0x82D7, 0x306E, 0x53CE, 0x7A6B, 0x30BF, 0x30A4, 0x30DF,
      0x30F3, 0x30B0, 0x3092, 0x5224, 0x65AD, 0x3057, 0x3066, 0x304F, 0x3060, 0x3055, 0x3044]"

definition disease_question :: jsstring where
  "disease_question =
     [0x8C46, 0x82D7, 0x306E, 0x75C5, 0x6C17, 0x3092, 0x8A3A, 0x65AD, 0x3057, 0x3066, 0x304F,
      0x3060, 0x3055, 0x3044]"

definition cooking_question :: jsstring where
  "cooking_question =
     [0x53CE, 0x7A6B, 0x3057, 0x305F, 0x8C46, 0x82D7, 0x306E, 0x8ABF, 0x7406, 0x4F8B, 0x3092,
      0x6559, 0x3048, 0x3066, 0x304F, 0x3060, 0x3055, 0x3044]"

text \<open>
  \<^verbatim>\<open>
  executeQuickAction(action) {
      let question = '';
      switch(action) {
          case 'harvest': question = ...; break;
          case 'disease': question = ...; break;
          case 'cooking': question = ...; break;
          default: return;
      }
      const questionInput = document.getElementById('question-input');
      if (questionInput) { questionInput.value = question; }
      this.selectTag(action);
      this.sendQuestion();
  }
  \<close>
  The result is the page and, where \<open>sendQuestion\<close> was called, how its first part
  ended (the promise is not awaited).
\<close>

definition quick_question :: "jsstring \<Rightarrow> jsstring option" where
  "quick_question action =
     (if action = str ''harvest'' then Some harvest_question
      else if action = str ''disease'' then Some disease_question
      else if action = str ''cooking'' then Some cooking_question
      else None)"

definition setQuestionInput :: "jsstring \<Rightarrow> page \<Rightarrow> page" where
  "setQuestionInput q s =
     (case questionInput s of None \<Rightarrow> s | Some v \<Rightarrow> s\<lparr>questionInput := Some q\<rparr>)"

definition executeQuickAction :: "nat \<Rightarrow> jsstring \<Rightarrow> page \<Rightarrow> page \<times> outcome option" where
  "executeQuickAction now action s =
     (case quick_question action of
        None \<Rightarrow> (s, None)
      | Some q \<Rightarrow>
          (case sendQuestion now (selectTag action (setQuestionInput q s)) of
             (s', result) \<Rightarrow> (s', Some result)))"

definition executeQuickAction_text :: "nat \<Rightarrow> jsstring \<Rightarrow> page \<Rightarrow> page \<times> outcome option" where
  "executeQuickAction_text now action s =
     (case quick_question action of
        None \<Rightarrow> (s, None)
      | Some q \<Rightarrow>
          (case sendQuestion_text now (selectTag action (setQuestionInput q s)) of
             (s', result) \<Rightarrow> (s', Some result)))"

text \<open>\<open>initialize\<close> loads the stored history and selects the default tag (its event
  listeners are the events below; the tag list it fetches only redraws the tag items).\<close>

definition initialize :: "bool \<Rightarrow> page \<Rightarrow> page" where
  "initialize read_ok s = selectDefaultTag (loadConsultationHistory read_ok s)"

subsection \<open>Events\<close>

text \<open>
  What can happen to the page, one event at a time (JavaScript runs each of them to its
  end before the next): the calls of the manager's methods by the page's listeners, the
  user's typing, the choice or removal of an image, and the arrival of the response of a
  request, which resumes \<open>sendQuestion\<close>. Each event carries what it reads from outside:
  the clock, whether the local storage works, the response.
\<close>

datatype event =
    Initialize bool
  | SelectTag jsstring
  | SelectDefaultTag
  | TypeQuestion jsstring
  | SelectImage "image option"
  | RemoveImage
  | SendQuestion nat
  | ResponseArrives nat bool jsstring response
  | ExecuteQuickAction nat jsstring
  | AddToHistory nat bool jsstring jsstring jsstring
  | LoadConsultationHistory bool
  | UpdateHistoryDisplay
  | ClearHistory bool

fun step :: "event \<Rightarrow> page \<Rightarrow> page" where
  "step (Initialize read_ok) s = initialize read_ok s"
| "step (SelectTag t) s = selectTag t s"
| "step SelectDefaultTag s = selectDefaultTag s"
| "step (TypeQuestion v) s = setQuestionInput v s"
| "step (SelectImage file) s = handleImageSelect file s"
| "step RemoveImage s = removeImage s"
| "step (SendQuestion now) s = fst (sendQuestion now s)"
| "step (ResponseArrives now write_ok q r) s = fst (sendQuestion_resume now write_ok q r s)"
| "step (ExecuteQuickAction now action) s = fst (executeQuickAction now action s)"
| "step (AddToHistory now write_ok q a t) s = addToHistory now write_ok q a t s"
| "step (LoadConsultationHistory read_ok) s = loadConsultationHistory read_ok s"
| "step UpdateHistoryDisplay s = updateHistoryDisplay s"
| "step (ClearHistory remove_ok) s = clearHistory remove_ok s"

fun run :: "event list \<Rightarrow> page \<Rightarrow> page" where
  "run [] s = s"
| "run (e # es) s = run es (step e s)"

text \<open>A page for the examples: every element is there, nothing is stored.\<close>

definition blank_page :: page where
  "blank_page =
     \<lparr>selectedTag = [], chatHistory = [], maxHistoryLength = 0, attachedImage = None,
      questionInput = Some [], chatContainer = Some [], historyContainer = Some Template,
      localStorage = None, notifications = [], console = [], requests = []\<rparr>"

subsection \<open>Notions used by the properties\<close>

text \<open>The tags of a consultation.\<close>

definition consultation_tags :: "jsstring set" where
  "consultation_tags = {tag_general, tag_harvest, tag_disease, tag_cooking}"

text \<open>The stored history, if there is one, has at most 50 entries.\<close>

definition stored_within_limit :: "page \<Rightarrow> bool" where
  "stored_within_limit s = (case localStorage s of None \<Rightarrow> True | Some h \<Rightarrow> length h \<le> 50)"

definition history_bounded :: "page \<Rightarrow> bool" where
  "history_bounded s \<longleftrightarrow>
     maxHistoryLength s = 50 \<and> length (chatHistory s) \<le> 50 \<and> stored_within_limit s"

text \<open>An addition to the history: the clock, whether the storage accepts the write, the
  question, the answer and the tag; the event of the addition and the entry it creates.\<close>

type_synonym addition = "nat \<times> bool \<times> jsstring \<times> jsstring \<times> jsstring"

fun add_event :: "addition \<Rightarrow> event" where
  "add_event (now, write_ok, q, a, t) = AddToHistory now write_ok q a t"

fun new_item :: "addition \<Rightarrow> history_item" where
  "new_item (now, write_ok, q, a, t) = \<lparr>timestamp = now, question = q, answer = a, tag = t\<rparr>"

text \<open>The operations on the history after an entry exists: a further addition, the
  rendering of the display, the clearing; and the entries a sequence of events creates
  by its additions, the newest first.\<close>

fun history_operation :: "event \<Rightarrow> bool" where
  "history_operation (AddToHistory now write_ok q a t) = True"
| "history_operation UpdateHistoryDisplay = True"
| "history_operation (ClearHistory remove_ok) = True"
| "history_operation e = False"

fun created :: "event list \<Rightarrow> history_item list" where
  "created [] = []"
| "created (AddToHistory now write_ok q a t # es) =
     created es @ [\<lparr>timestamp = now, question = q, answer = a, tag = t\<rparr>]"
| "created (e # es) = created es"

text \<open>The tags a sequence of events hands to \<open>selectTag\<close> from outside (the clicks on
  tag items).\<close>

fun selects_known_tag :: "event \<Rightarrow> bool" where
  "selects_known_tag (SelectTag t) = (t \<in> consultation_tags)"
| "selects_known_tag e = True"

text \<open>The selected tag and the tag of every request sent are tags of the enumeration.\<close>

definition tags_known :: "page \<Rightarrow> bool" where
  "tags_known s \<longleftrightarrow>
     selectedTag s \<in> consultation_tags \<and> (\<forall>r\<in>set (requests s). rq_tag r \<in> consultation_tags)"

section \<open>Structured judgments\<close>

text \<open>
  Modelled from the spec: the structured judgments and the validation of the Response
  Parser and Validator. The server that produces the judgments (\<^verbatim>\<open>src/ai/ai_consultation.py\<close>,
  \<^verbatim>\<open>src/api/ai_api.py\<close>) is not among the sources; the pages only display what it
  returns, unchecked. The spec's data model gives one variant per tag:
  \<^item> Harvest: \<open>harvestReady\<close>, \<open>confidence\<close> in [0,1], \<open>recommendation\<close>,
    \<open>daysRemaining\<close> an integer at least 0, \<open>growthStage\<close>, \<open>qualityScore\<close>,
    with \<open>harvestReady = true\<close> implying \<open>daysRemaining = 0\<close>;
  \<^item> Disease: \<open>diseaseDetected\<close>, \<open>confidence\<close> in [0,1], \<open>treatment\<close>,
    \<open>prevention\<close>, \<open>severity\<close>, \<open>affectedArea\<close>;
  \<^item> Cooking: \<open>recommendedDishes\<close> (not empty), \<open>cookingTips\<close>, \<open>nutritionInfo\<close>,
    \<open>storageTips\<close>;
  \<^item> General: \<open>answer\<close> (not empty), \<open>confidence\<close> in [0,1], \<open>relatedTopics\<close>,
    \<open>nextSteps\<close>.
  A candidate is what decoding the provider's output found for each field, \<open>None\<close> for
  a field that is missing or of the wrong type. Validation: "any missing required field,
  out-of-range numeric value, or empty required string yields ParseError -- the record is
  discarded wholesale"; "confidence values are never silently clamped".
\<close>

datatype structured_judgment =
    Harvest bool real jsstring int jsstring real
  | Disease jsstring real jsstring jsstring jsstring jsstring
  | Cooking "jsstring list" jsstring jsstring jsstring
  | General jsstring real "jsstring list" "jsstring list"

datatype candidate =
    HarvestCandidate "bool option" "real option" "jsstring option" "int option"
      "jsstring option" "real option"
  | DiseaseCandidate "jsstring option" "real option" "jsstring option" "jsstring option"
      "jsstring option" "jsstring option"
  | CookingCandidate "jsstring list option" "jsstring option" "jsstring option"
      "jsstring option"
  | GeneralCandidate "jsstring option" "real option" "jsstring list option"
      "jsstring list option"

datatype parse_error = ParseError

definition in_unit_interval :: "real \<Rightarrow> bool" where
  "in_unit_interval c \<longleftrightarrow> 0 \<le> c \<and> c \<le> 1"

text \<open>
  Modelled from the spec: the validation step of the Response Parser and Validator, which
  is not among the sources. A missing required field, then an out-of-range number (a
  confidence outside [0,1], negative days remaining), a record that is ready to harvest
  with days remaining, an empty list of dishes or an empty answer each give the parse
  error; otherwise the record is returned with the values of the candidate.
\<close>

fun validate :: "candidate \<Rightarrow> parse_error + structured_judgment" where
  "validate (HarvestCandidate harvestReady confidence recommendation daysRemaining
               growthStage qualityScore) =
     (if harvestReady = None \<or> confidence = None \<or> recommendation = None
         \<or> daysRemaining = None \<or> growthStage = None \<or> qualityScore = None
      then Inl ParseError
      else if \<not> in_unit_interval (the confidence) \<or> the daysRemaining < 0
      then Inl ParseError
      else if the harvestReady \<and> the daysRemaining \<noteq> 0
      then Inl ParseError
      else Inr (Harvest (the harvestReady) (the confidence) (the recommendation)
                  (the daysRemaining) (the growthStage) (the qualityScore)))"
| "validate (DiseaseCandidate diseaseDetected confidence treatment prevention severity
               affectedArea) =
     (if diseaseDetected = None \<or> confidence = None \<or> treatment = None
         \<or> prevention = None \<or> severity = None \<or> affectedArea = None
      then Inl ParseError
      else if \<not> in_unit_interval (the confidence)
      then Inl ParseError
      else Inr (Disease (the diseaseDetected) (the confidence) (the treatment)
                  (the prevention) (the severity) (the affectedArea)))"
| "validate (CookingCandidate recommendedDishes cookingTips nutritionInfo storageTips) =
     (if recommendedDishes = None \<or> cookingTips = None \<or> nutritionInfo = None
         \<or> storageTips = None
      then Inl ParseError
      else if the recommendedDishes = []
      then Inl ParseError
      else Inr (Cooking (the recommendedDishes) (the cookingTips) (the nutritionInfo)
                  (the storageTips)))"
| "validate (GeneralCandidate answer' confidence relatedTopics nextSteps) =
     (if answer' = None \<or> confidence = None \<or> relatedTopics = None \<or> nextSteps = None
      then Inl ParseError
      else if \<not> in_unit_interval (the confidence) \<or> the answer' = []
      then Inl ParseError
      else Inr (General (the answer') (the confidence) (the relatedTopics) (the nextSteps)))"

text \<open>
  Modelled from the spec: the invariants of the data model on a judgment, and what a tag
  service returns, which are not among the sources. "On success, append History and
  return; on failure at any stage after input-gathering, invoke Fallback Policy, append
  History (marked degraded), and return." The fallback record is given: the spec names no
  rules for it, only that it is schema-valid and satisfies the invariants of the data
  model. The result is the judgment and the degraded marker.
\<close>

fun schema_valid :: "structured_judgment \<Rightarrow> bool" where
  "schema_valid (Harvest ready c rc days stage score) =
     (in_unit_interval c \<and> 0 \<le> days \<and> (if ready then days = 0 else True))"
| "schema_valid (Disease dd c t p sv ar) = in_unit_interval c"
| "schema_valid (Cooking ds t n st) = (ds \<noteq> [])"
| "schema_valid (General a c rel nx) = (a \<noteq> [] \<and> in_unit_interval c)"

definition respond :: "candidate \<Rightarrow> structured_judgment \<Rightarrow> structured_judgment \<times> bool" where
  "respond cand fallback =
     (case validate cand of Inr j \<Rightarrow> (j, False) | Inl e \<Rightarrow> (fallback, True))"

text \<open>The confidence fields of a judgment and of a candidate (a cooking judgment has
  none).\<close>

fun confidences :: "structured_judgment \<Rightarrow> real list" where
  "confidences (Harvest r c rc d g q) = [c]"
| "confidences (Disease dd c t p sv ar) = [c]"
| "confidences (Cooking ds t n st) = []"
| "confidences (General a c rel nx) = [c]"

fun candidate_confidences :: "candidate \<Rightarrow> real option list" where
  "candidate_confidences (HarvestCandidate r c rc d g q) = [c]"
| "candidate_confidences (DiseaseCandidate dd c t p sv ar) = [c]"
| "candidate_confidences (CookingCandidate ds t n st) = []"
| "candidate_confidences (GeneralCandidate a c rel nx) = [c]"

text \<open>
  Two harvest records: the provider output of the spec's scenario B, and the example of
  the repository's function reference for \<^verbatim>\<open>get_harvest_judgment\<close> and
  \<^verbatim>\<open>POST /api/ai/harvest-judgment\<close> (ready, confidence 0.85, 2 days remaining,
  stage \<^verbatim>\<open>mature\<close>, quality score 8.5).
\<close>

definition scenario_B :: candidate where
  "scenario_B =
     HarvestCandidate (Some True) (Some (9 / 10)) (Some (str ''ready'')) (Some 0)
       (Some (str ''mature'')) (Some (17 / 2))"

definition reference_example :: candidate where
  "reference_example =
     HarvestCandidate (Some True) (Some (85 / 100))
       (Some [0x53CE, 0x7A6B, 0x306E, 0x30BF, 0x30A4, 0x30DF, 0x30F3, 0x30B0, 0x3067, 0x3059])
       (Some 2) (Some (str ''mature'')) (Some (17 / 2))"

text \<open>A fallback record for the examples: not ready, no confidence, one day remaining.\<close>

definition fallback_example :: structured_judgment where
  "fallback_example = Harvest False 0 (str ''wait'') 1 (str ''unknown'') 0"

section \<open>Examples\<close>

text \<open>Fifty-one additions with distinct timestamps, for the examples.\<close>

definition fifty_one :: "addition list" where
  "fifty_one = map (\<lambda>n. (n, True, [], [], [])) [0..<51]"

text \<open>The blank page with sixty entries in its storage.\<close>

definition sixty :: "addition list" where
  "sixty = map (\<lambda>n. (n, True, [], [], [])) [0..<60]"

definition sixty_stored_page :: page where
  "sixty_stored_page = blank_page\<lparr>localStorage := Some (map new_item sixty)\<rparr>"

text \<open>The double nearest to \<open>10^308\<close>.\<close>

definition ten_to_308 :: real where
  "ten_to_308 = 5010420900022432 * 2 ^ 971"

text \<open>A new manager on the blank page: with a full history (fifty additions), with a
  question of blanks only (a space and an ideographic space), with a question, and with
  one entry in its history.\<close>

definition full_page :: page where
  "full_page = run (map add_event (tl fifty_one)) (constructor blank_page)"

definition blank_question_page :: page where
  "blank_question_page = step (TypeQuestion [0x20, 0x3000]) (constructor blank_page)"

definition question_page :: page where
  "question_page = step (TypeQuestion (str '' hello '')) (constructor blank_page)"

definition one_entry_page :: page where
  "one_entry_page =
     step (AddToHistory 1 True (str ''q1'') (str ''a1'') tag_general) (constructor blank_page)"

section \<open>Properties\<close>

subsection \<open>The bound of the history\<close>

lemmas page_defs = showNotification_def storage_set_def storage_get_def storage_remove_def
  localStorage_setItem_def localStorage_getItem_def localStorage_removeItem_def
  handleImageSelect_def removeImage_def getAttachedImage_def selectTag_def selectDefaultTag_def
  addMessageToChat_def removeLastMessage_def addToHistory_def updateHistoryDisplay_def
  loadConsultationHistory_def clearHistory_def sendQuestion_def sendQuestion_resume_def
  executeQuickAction_def setQuestionInput_def initialize_def

text \<open>
  Loading takes the stored history as it is, without cutting it: the bound of the
  history in memory rests on the bound of what is stored, and the storage only ever
  receives what \<open>addToHistory\<close> has cut. Both bounds together are kept by every event.
\<close>

lemma chatHistory_updateHistoryDisplay: "chatHistory (updateHistoryDisplay s) = chatHistory s"
  by (simp add: updateHistoryDisplay_def split: option.splits)

lemma step_bounded: "history_bounded s \<Longrightarrow> history_bounded (step e s)"
  by (cases e)
     (auto simp: history_bounded_def stored_within_limit_def page_defs Let_def
           split: option.splits response.splits prod.splits if_splits)

lemma run_bounded: "history_bounded s \<Longrightarrow> history_bounded (run es s)"
  by (induction es arbitrary: s) (simp_all add: step_bounded)

lemma constructor_bounded: "stored_within_limit p \<Longrightarrow> history_bounded (constructor p)"
  by (simp add: history_bounded_def stored_within_limit_def constructor_def)

lemma chatHistory_loadConsultationHistory:
  "chatHistory (loadConsultationHistory True s)
     = (case localStorage s of None \<Rightarrow> [] | Some h \<Rightarrow> h)"
  by (simp add: loadConsultationHistory_def storage_get_def localStorage_getItem_def
        chatHistory_updateHistoryDisplay split: option.splits)

text \<open>
  Claim C1, as it stands, fails: the bound is not kept by loading. On a page whose
  storage holds sixty entries, the initialization of a new manager loads all sixty.
\<close>

theorem load_exceeds_50_counterexample:
  "length (chatHistory (run [Initialize True] (constructor sixty_stored_page))) = 60"
  by (simp add: page_defs constructor_def sixty_stored_page_def blank_page_def sixty_def)

text \<open>
  Claim C1, amended. A manager constructed on a page whose stored history, if any, has at
  most 50 entries holds at most 50 entries after every sequence of events: loading the
  stored history, adding entries, clearing, and every other event of the page, whether or
  not the storage works.
\<close>

theorem history_never_exceeds_50:
  "stored_within_limit p \<Longrightarrow> length (chatHistory (run es (constructor p))) \<le> 50"
  using run_bounded [OF constructor_bounded, of p es] by (simp add: history_bounded_def)

theorem history_never_exceeds_50_witness:
  "stored_within_limit one_entry_page
   \<and> localStorage one_entry_page
       = Some [\<lparr>timestamp = 1, question = str ''q1'', answer = str ''a1'', tag = tag_general\<rparr>]
   \<and> length (chatHistory (run [Initialize True,
                               AddToHistory 2 False (str ''q2'') (str ''a2'') tag_harvest,
                               ClearHistory True, LoadConsultationHistory True]
                          (constructor one_entry_page))) \<le> 50"
  using history_never_exceeds_50 [of one_entry_page
      "[Initialize True, AddToHistory 2 False (str ''q2'') (str ''a2'') tag_harvest,
        ClearHistory True, LoadConsultationHistory True]"]
  by (simp add: stored_within_limit_def one_entry_page_def page_defs constructor_def
        blank_page_def Let_def)

subsection \<open>Eviction\<close>

lemma chatHistory_addToHistory:
  "chatHistory (addToHistory now ok q a t s) =
     take (maxHistoryLength s)
       (\<lparr>timestamp = now, question = q, answer = a, tag = t\<rparr> # chatHistory s)"
  by (simp add: addToHistory_def storage_set_def localStorage_setItem_def Let_def)

lemma maxHistoryLength_addToHistory:
  "maxHistoryLength (addToHistory now ok q a t s) = maxHistoryLength s"
  by (simp add: addToHistory_def storage_set_def localStorage_setItem_def Let_def)

lemma take_append_take: "take n (xs @ take n ys) = take n (xs @ ys)"
  by (simp add: min_def)

text \<open>Additions in a row keep the newest entries, the newest first.\<close>

lemma chatHistory_run_additions:
  "length (chatHistory s) \<le> maxHistoryLength s \<Longrightarrow>
   chatHistory (run (map add_event xs) s) =
     take (maxHistoryLength s) (rev (map new_item xs) @ chatHistory s)"
proof (induction xs arbitrary: s)
  case Nil
  then show ?case by simp
next
  case (Cons x xs)
  obtain now ok q a t where x: "x = (now, ok, q, a, t)" by (cases x)
  have "length (chatHistory (addToHistory now ok q a t s))
          \<le> maxHistoryLength (addToHistory now ok q a t s)"
    by (simp add: chatHistory_addToHistory maxHistoryLength_addToHistory)
  then show ?case
    by (simp add: x Cons.IH chatHistory_addToHistory maxHistoryLength_addToHistory
          take_append_take)
qed

lemma maxHistoryLength_run_additions:
  "maxHistoryLength (run (map add_event xs) s) = maxHistoryLength s"
  by (induction xs arbitrary: s) (auto simp: maxHistoryLength_addToHistory)

text \<open>
  Claim C2. An addition to a full history puts the new entry at the front and drops
  exactly the last, the oldest, entry. After 51 additions of distinct entries to the
  empty history of a new manager, the history is the 51st, 50th, ..., 2nd entry in this
  order: 50 entries, the newest first, and the entry added first is gone.
\<close>

theorem fifty_one_additions_evict_the_first:
  "(maxHistoryLength s = 50 \<and> length (chatHistory s) = 50 \<longrightarrow>
      chatHistory (addToHistory now ok q a t s)
        = \<lparr>timestamp = now, question = q, answer = a, tag = t\<rparr> # butlast (chatHistory s))
   \<and> (length xs = 51 \<and> distinct (map new_item xs) \<longrightarrow>
        chatHistory (run (map add_event xs) (constructor p)) = rev (tl (map new_item xs))
        \<and> length (chatHistory (run (map add_event xs) (constructor p))) = 50
        \<and> hd (map new_item xs) \<notin> set (chatHistory (run (map add_event xs) (constructor p))))"
proof (intro conjI impI)
  assume a: "maxHistoryLength s = 50 \<and> length (chatHistory s) = 50"
  then have "take 49 (chatHistory s) = butlast (chatHistory s)"
    by (simp add: butlast_conv_take)
  with a show "chatHistory (addToHistory now ok q a t s)
        = \<lparr>timestamp = now, question = q, answer = a, tag = t\<rparr> # butlast (chatHistory s)"
    by (simp add: chatHistory_addToHistory)
next
  assume a: "length xs = 51 \<and> distinct (map new_item xs)"
  let ?items = "map new_item xs"
  let ?h = "chatHistory (run (map add_event xs) (constructor p))"
  have h: "?h = take 50 (rev ?items)"
    using chatHistory_run_additions [of "constructor p" xs] by (simp add: constructor_def)
  from a obtain i rest where items: "?items = i # rest" and rest: "length rest = 50"
    by (cases ?items) auto
  have eq: "take 50 (rev ?items) = rev rest"
    using rest by (simp add: items)
  have "i \<notin> set rest" using a by (simp add: items)
  then have all: "?h = rev (tl ?items) \<and> length ?h = 50 \<and> hd ?items \<notin> set ?h"
    by (simp add: h eq items rest)
  from all show "?h = rev (tl ?items)" by blast
  from all show "length ?h = 50" by blast
  from all show "hd ?items \<notin> set ?h" by blast
qed

theorem fifty_one_additions_evict_the_first_witness:
  "length fifty_one = 51 \<and> distinct (map new_item fifty_one)
   \<and> chatHistory (run (map add_event fifty_one) (constructor blank_page))
       = rev (tl (map new_item fifty_one))
   \<and> hd (map new_item fifty_one)
       \<notin> set (chatHistory (run (map add_event fifty_one) (constructor blank_page)))
   \<and> maxHistoryLength full_page = 50 \<and> length (chatHistory full_page) = 50
   \<and> chatHistory (addToHistory 99 True [] [] [] full_page)
       = \<lparr>timestamp = 99, question = [], answer = [], tag = []\<rparr>
           # butlast (chatHistory full_page)"
proof -
  have l: "length fifty_one = 51" by (simp add: fifty_one_def)
  have d: "distinct (map new_item fifty_one)"
    by (simp add: fifty_one_def distinct_map inj_on_def comp_def)
  have m: "maxHistoryLength full_page = 50"
    by (simp add: full_page_def maxHistoryLength_run_additions constructor_def)
  have f: "length (chatHistory full_page) = 50"
    using chatHistory_run_additions [of "constructor blank_page" "tl fifty_one"] l
    by (simp add: full_page_def constructor_def)
  show ?thesis
    using fifty_one_additions_evict_the_first
            [of full_page 99 True "[]" "[]" "[]" fifty_one blank_page] l d m f
    by blast
qed

subsection \<open>A failing storage\<close>

text \<open>
  Claim C7. When the write to the local storage throws, \<open>addToHistory\<close> still returns:
  the history in memory is what it is when the write succeeds, with the new entry at its
  head, the error is logged and the stored history is as it was; a consultation that was
  answered still completes, with its entry at the head of the history.
\<close>

theorem addToHistory_survives_storage_failure:
  assumes "maxHistoryLength s = 50"
  shows "chatHistory (addToHistory now False q a t s)
           = take 50 (\<lparr>timestamp = now, question = q, answer = a, tag = t\<rparr> # chatHistory s)
       \<and> hd (chatHistory (addToHistory now False q a t s))
           = \<lparr>timestamp = now, question = q, answer = a, tag = t\<rparr>
       \<and> \<lparr>timestamp = now, question = q, answer = a, tag = t\<rparr>
           \<in> set (chatHistory (addToHistory now False q a t s))
       \<and> chatHistory (addToHistory now False q a t s)
           = chatHistory (addToHistory now True q a t s)
       \<and> console (addToHistory now False q a t s) = console s @ [LogSaveError]
       \<and> localStorage (addToHistory now False q a t s) = localStorage s
       \<and> (chatContainer s \<noteq> None \<longrightarrow>
             snd (sendQuestion_resume now False q (StatusSuccess a) s) = Completed
             \<and> hd (chatHistory (fst (sendQuestion_resume now False q (StatusSuccess a) s)))
                 = \<lparr>timestamp = now, question = q, answer = a, tag = selectedTag s\<rparr>)"
  using assms by (auto simp: page_defs Let_def split: option.splits)

theorem addToHistory_survives_storage_failure_witness:
  "maxHistoryLength (constructor blank_page) = 50
   \<and> chatHistory (addToHistory 7 False (str ''q'') (str ''a'') tag_general (constructor blank_page))
       = [\<lparr>timestamp = 7, question = str ''q'', answer = str ''a'', tag = tag_general\<rparr>]
   \<and> console (addToHistory 7 False (str ''q'') (str ''a'') tag_general (constructor blank_page))
       = [LogSaveError]
   \<and> localStorage (addToHistory 7 False (str ''q'') (str ''a'') tag_general (constructor blank_page))
       = None"
  using addToHistory_survives_storage_failure
          [of "constructor blank_page" 7 "str ''q''" "str ''a''" tag_general]
  by (simp add: constructor_def blank_page_def)

subsection \<open>Entries are not changed\<close>

lemma chatHistory_clearHistory: "chatHistory (clearHistory ok s) = []"
  by (simp add: clearHistory_def showNotification_def chatHistory_updateHistoryDisplay
        storage_remove_def localStorage_removeItem_def)

text \<open>
  After additions, renderings and clearings the history is a front part of the entries
  created since, followed by a front part of the history before; and an entry of the
  history before is only still there when every entry created since is.
\<close>

lemma entries_kept_or_created:
  "\<forall>e\<in>set es. history_operation e \<Longrightarrow>
   \<exists>n k. chatHistory (run es s) = take n (created es) @ take k (chatHistory s)
         \<and> (0 < k \<longrightarrow> length (created es) \<le> n)"
proof (induction es arbitrary: s)
  case Nil
  have "chatHistory s = take 0 [] @ take (length (chatHistory s)) (chatHistory s)" by simp
  then show ?case by (metis created.simps(1) list.size(3) order.refl run.simps(1))
next
  case (Cons e es)
  then have ops: "\<forall>e\<in>set es. history_operation e" and e: "history_operation e" by simp_all
  from Cons.IH [OF ops, of "step e s"] obtain n k where
    h: "chatHistory (run es (step e s)) = take n (created es) @ take k (chatHistory (step e s))"
    and nk: "0 < k \<longrightarrow> length (created es) \<le> n" by blast
  show ?case
  proof (cases e)
    case (AddToHistory now ok q a t)
    let ?i = "\<lparr>timestamp = now, question = q, answer = a, tag = t\<rparr>"
    let ?m = "min k (maxHistoryLength s)"
    have h': "chatHistory (run (e # es) s) = take n (created es) @ take ?m (?i # chatHistory s)"
      using h by (simp add: AddToHistory chatHistory_addToHistory)
    show ?thesis
    proof (cases "?m = 0")
      case True
      have "take n (created es) = take (min n (length (created es))) (created es)"
        by (cases "n \<le> length (created es)") (simp_all add: min_def)
      with True have "chatHistory (run (e # es) s)
          = take (min n (length (created es))) (created (e # es)) @ take 0 (chatHistory s)"
        using h' by (simp add: AddToHistory)
      then show ?thesis by blast
    next
      case False
      then have "0 < k" by simp
      with nk have full: "take n (created es) = created es" by simp
      from False obtain m' where m': "?m = Suc m'" by (cases ?m) auto
      have "chatHistory (run (e # es) s)
          = take (length (created (e # es))) (created (e # es)) @ take m' (chatHistory s)"
        using h' by (simp add: full m' AddToHistory)
      then show ?thesis by blast
    qed
  next
    case UpdateHistoryDisplay
    then show ?thesis using h nk by (auto simp: chatHistory_updateHistoryDisplay)
  next
    case (ClearHistory ok)
    then have "chatHistory (run (e # es) s)
        = take n (created (e # es)) @ take 0 (chatHistory s)"
      using h by (simp add: chatHistory_clearHistory)
    then show ?thesis by blast
  qed (use e in simp_all)
qed

text \<open>
  Claim C8. Entries are never changed once created. Through any sequence of further
  additions, renderings of the display and clearings, the history consists of entries
  created by the additions, with exactly the timestamp, question, answer and tag they were
  given, followed by entries of the history before, unchanged and in their order: entries
  are added at the front and dropped from the end (or all at once), nothing else.
\<close>

theorem entries_never_mutated:
  assumes "\<forall>e\<in>set es. history_operation e"
  shows "(\<exists>n k. chatHistory (run es s) = take n (created es) @ take k (chatHistory s))
         \<and> set (chatHistory (run es s)) \<subseteq> set (created es) \<union> set (chatHistory s)"
proof -
  from entries_kept_or_created [OF assms, of s] obtain n k where
    h: "chatHistory (run es s) = take n (created es) @ take k (chatHistory s)" by blast
  have "set (take n (created es) @ take k (chatHistory s))
          \<subseteq> set (created es) \<union> set (chatHistory s)"
    using set_take_subset [of n "created es"] set_take_subset [of k "chatHistory s"] by auto
  with h show ?thesis by metis
qed

theorem entries_never_mutated_witness:
  "list_all history_operation
     [AddToHistory 2 True (str ''q2'') (str ''a2'') tag_harvest, UpdateHistoryDisplay]
   \<and> chatHistory (run [AddToHistory 2 True (str ''q2'') (str ''a2'') tag_harvest,
                       UpdateHistoryDisplay] one_entry_page)
       = [\<lparr>timestamp = 2, question = str ''q2'', answer = str ''a2'', tag = tag_harvest\<rparr>,
          \<lparr>timestamp = 1, question = str ''q1'', answer = str ''a1'', tag = tag_general\<rparr>]
   \<and> set (chatHistory (run [AddToHistory 2 True (str ''q2'') (str ''a2'') tag_harvest,
                            UpdateHistoryDisplay] one_entry_page))
       \<subseteq> set (created [AddToHistory 2 True (str ''q2'') (str ''a2'') tag_harvest,
                         UpdateHistoryDisplay])
           \<union> set (chatHistory one_entry_page)"
  using entries_never_mutated
          [of "[AddToHistory 2 True (str ''q2'') (str ''a2'') tag_harvest, UpdateHistoryDisplay]"
              one_entry_page]
  by (simp add: one_entry_page_def page_defs constructor_def blank_page_def Let_def)

subsection \<open>The guard of sendQuestion\<close>

text \<open>The trimmed text is empty exactly when the text consists of white space only.\<close>

lemma trim_empty_iff: "trim v = [] \<longleftrightarrow> (\<forall>c\<in>set v. isWhiteSpace c)"
proof
  assume "trim v = []"
  then have "\<forall>c\<in>set (dropWhile isWhiteSpace v). isWhiteSpace c"
    by (simp add: trim_def dropWhile_eq_Nil_conv)
  then have "dropWhile isWhiteSpace v = []"
    by (metis hd_dropWhile hd_in_set)
  then show "\<forall>c\<in>set v. isWhiteSpace c" by (simp add: dropWhile_eq_Nil_conv)
next
  assume "\<forall>c\<in>set v. isWhiteSpace c"
  then have d: "dropWhile isWhiteSpace v = []" by (simp add: dropWhile_eq_Nil_conv)
  show "trim v = []" unfolding trim_def d by simp
qed

text \<open>
  Claim C5. With a question that is empty or white space only and no image attached,
  \<open>sendQuestion\<close> shows its warning and returns: apart from the notification the page
  is as it was (no request, the chat, the history and the storage unchanged). This holds
  in both revisions; a request is only sent when the trimmed question is not empty or,
  in the revision with attachments, an image is attached.
\<close>

theorem empty_question_sends_nothing:
  "(questionInput s = Some v \<and> (\<forall>c\<in>set v. isWhiteSpace c) \<and> attachedImage s = None \<longrightarrow>
      sendQuestion now s
        = (s\<lparr>notifications := notifications s @ [(NoticeEnterQuestionOrImage, Warning)]\<rparr>,
           Warned)
      \<and> sendQuestion_text now s
        = (s\<lparr>notifications := notifications s @ [(NoticeEnterQuestion, Warning)]\<rparr>, Warned))
   \<and> (requests (fst (sendQuestion now s)) \<noteq> requests s \<longrightarrow>
        (\<exists>w. questionInput s = Some w \<and> trim w \<noteq> []) \<or> attachedImage s \<noteq> None)
   \<and> (requests (fst (sendQuestion_text now s)) \<noteq> requests s \<longrightarrow>
        (\<exists>w. questionInput s = Some w \<and> trim w \<noteq> []))"
  by (auto simp: trim_empty_iff [symmetric] page_defs sendQuestion_text_def Let_def
           split: option.splits)

theorem empty_question_sends_nothing_witness:
  "questionInput blank_question_page = Some [0x20, 0x3000]
   \<and> isWhiteSpace 0x20 \<and> isWhiteSpace 0x3000
   \<and> attachedImage blank_question_page = None
   \<and> snd (sendQuestion 5 blank_question_page) = Warned
   \<and> requests (fst (sendQuestion 5 blank_question_page)) = requests blank_question_page
   \<and> chatContainer (fst (sendQuestion 5 blank_question_page)) = chatContainer blank_question_page
   \<and> chatHistory (fst (sendQuestion 5 blank_question_page)) = chatHistory blank_question_page
   \<and> requests (fst (sendQuestion 5 question_page)) \<noteq> requests question_page
   \<and> questionInput question_page = Some (str '' hello '')
   \<and> trim (str '' hello '') = str ''hello''"
  using empty_question_sends_nothing [of blank_question_page "[0x20, 0x3000]" 5]
        empty_question_sends_nothing [of question_page "[]" 5]
  by (simp add: blank_question_page_def question_page_def page_defs constructor_def
        blank_page_def isWhiteSpace_def trim_def str_def Let_def)

subsection \<open>Quick actions\<close>

text \<open>
  Claim C10. \<open>executeQuickAction\<close> with an action other than \<^verbatim>\<open>harvest\<close>,
  \<^verbatim>\<open>disease\<close> and \<^verbatim>\<open>cooking\<close> returns at once: the page is as it was (question
  input, selected tag, chat, history, requests) and \<open>sendQuestion\<close> is not called.
\<close>

theorem unknown_quick_action_is_noop:
  "action \<notin> {str ''harvest'', str ''disease'', str ''cooking''} \<Longrightarrow>
   executeQuickAction now action s = (s, None)
   \<and> executeQuickAction_text now action s = (s, None)"
  by (simp add: executeQuickAction_def executeQuickAction_text_def quick_question_def)

theorem unknown_quick_action_is_noop_witness:
  "str ''watering'' \<notin> {str ''harvest'', str ''disease'', str ''cooking''}
   \<and> executeQuickAction 3 (str ''watering'') (constructor blank_page)
       = (constructor blank_page, None)
   \<and> executeQuickAction_text 3 (str ''watering'') (constructor blank_page)
       = (constructor blank_page, None)"
  using unknown_quick_action_is_noop [of "str ''watering''" 3 "constructor blank_page"]
  by (simp add: str_def)

subsection \<open>Tags\<close>

lemma quick_question_tag: "quick_question a = Some q \<Longrightarrow> a \<in> consultation_tags"
  by (auto simp: quick_question_def consultation_tags_def tag_harvest_def tag_disease_def
        tag_cooking_def split: if_splits)

lemma step_tags_known: "selects_known_tag e \<Longrightarrow> tags_known s \<Longrightarrow> tags_known (step e s)"
  by (cases e)
     (auto simp: tags_known_def page_defs Let_def consultation_tags_def
           split: option.splits response.splits prod.splits if_splits
           dest: quick_question_tag)

lemma run_tags_known:
  "\<forall>e\<in>set es. selects_known_tag e \<Longrightarrow> tags_known s \<Longrightarrow> tags_known (run es s)"
  by (induction es arbitrary: s) (simp_all add: step_tags_known)

text \<open>
  Claim C6, as it stands, fails: \<open>selectTag\<close> stores any tag, and the request carries
  the selected tag as it is. A click on a tag item whose \<^verbatim>\<open>data-tag\<close> is
  \<^verbatim>\<open>watering\<close>, a question and the send button give a request with the tag
  \<^verbatim>\<open>watering\<close>.
\<close>

theorem selectTag_unvalidated_counterexample:
  "map rq_tag (requests (run [SelectTag (str ''watering''), TypeQuestion (str ''hello''),
                              SendQuestion 0] (constructor blank_page)))
     = [str ''watering'']
   \<and> str ''watering'' \<notin> consultation_tags"
  by (simp add: page_defs constructor_def blank_page_def consultation_tags_def tag_general_def
        tag_harvest_def tag_disease_def tag_cooking_def str_def trim_def isWhiteSpace_def
        Let_def)

text \<open>
  Claim C6, amended. The selected tag of a new manager is \<^verbatim>\<open>general\<close>; \<open>selectTag\<close>
  stores the tag it is given, unchecked, and a request carries the selected tag unchanged.
  So the selected tag and the tag of every request lie in the enumeration as long as
  every tag handed to \<open>selectTag\<close> by a tag item does: the default selection and the
  quick actions only select tags of the enumeration.
\<close>

theorem selected_tag_known_while_tag_items_are:
  "selectedTag (constructor p) = tag_general
   \<and> selectedTag (selectTag t s) = t
   \<and> (snd (sendQuestion now s) = Pending q \<longrightarrow>
        requests (fst (sendQuestion now s))
          = requests s @ [\<lparr>rq_question = q, rq_tag = selectedTag s, rq_image = attachedImage s\<rparr>])
   \<and> (requests p = [] \<and> (\<forall>e\<in>set es. selects_known_tag e) \<longrightarrow>
        selectedTag (run es (constructor p)) \<in> consultation_tags
        \<and> (\<forall>r\<in>set (requests (run es (constructor p))). rq_tag r \<in> consultation_tags))"
proof -
  have 1: "selectedTag (constructor p) = tag_general" by (simp add: constructor_def)
  have 2: "selectedTag (selectTag t s) = t" by (simp add: selectTag_def)
  have 3: "snd (sendQuestion now s) = Pending q \<longrightarrow>
        requests (fst (sendQuestion now s))
          = requests s @ [\<lparr>rq_question = q, rq_tag = selectedTag s, rq_image = attachedImage s\<rparr>]"
    by (auto simp: page_defs Let_def split: option.splits if_splits)
  have 4: "requests p = [] \<and> (\<forall>e\<in>set es. selects_known_tag e) \<longrightarrow>
        selectedTag (run es (constructor p)) \<in> consultation_tags
        \<and> (\<forall>r\<in>set (requests (run es (constructor p))). rq_tag r \<in> consultation_tags)"
  proof
    assume a: "requests p = [] \<and> (\<forall>e\<in>set es. selects_known_tag e)"
    then have "tags_known (constructor p)"
      by (simp add: tags_known_def constructor_def consultation_tags_def)
    with a have "tags_known (run es (constructor p))" by (simp add: run_tags_known)
    then show "selectedTag (run es (constructor p)) \<in> consultation_tags
        \<and> (\<forall>r\<in>set (requests (run es (constructor p))). rq_tag r \<in> consultation_tags)"
      by (simp add: tags_known_def)
  qed
  from 1 2 3 4 show ?thesis by blast
qed

theorem selected_tag_known_while_tag_items_are_witness:
  "requests blank_page = []
   \<and> list_all selects_known_tag
         [SelectTag tag_harvest, TypeQuestion (str ''hello''), SendQuestion 0,
          ExecuteQuickAction 1 (str ''cooking'')]
   \<and> selectedTag (run [SelectTag tag_harvest, TypeQuestion (str ''hello''), SendQuestion 0,
                       ExecuteQuickAction 1 (str ''cooking'')] (constructor blank_page))
       = tag_cooking
   \<and> map rq_tag (requests (run [SelectTag tag_harvest, TypeQuestion (str ''hello''),
                                 SendQuestion 0, ExecuteQuickAction 1 (str ''cooking'')]
                              (constructor blank_page)))
       = [tag_harvest, tag_cooking]
   \<and> tag_harvest \<in> consultation_tags \<and> tag_cooking \<in> consultation_tags"
  using selected_tag_known_while_tag_items_are
          [of blank_page tag_general blank_page 0 "[]"
              "[SelectTag tag_harvest, TypeQuestion (str ''hello''), SendQuestion 0,
                ExecuteQuickAction 1 (str ''cooking'')]"]
  by (simp add: page_defs constructor_def blank_page_def consultation_tags_def tag_general_def
        tag_harvest_def tag_disease_def tag_cooking_def quick_question_def
        harvest_question_def disease_question_def cooking_question_def thinking_def
        str_def trim_def isWhiteSpace_def Let_def)

subsection \<open>Validated judgments\<close>

lemma validate_schema_valid: "validate cand = Inr j \<Longrightarrow> schema_valid j"
  by (cases cand) (auto split: if_splits)

lemma respond_schema_valid:
  "schema_valid fallback \<Longrightarrow> schema_valid (fst (respond cand fallback))"
  by (auto simp: respond_def validate_schema_valid split: sum.splits)

lemma schema_valid_confidences:
  "schema_valid j \<Longrightarrow> c \<in> set (confidences j) \<Longrightarrow> 0 \<le> c \<and> c \<le> 1"
  by (cases j) (auto simp: in_unit_interval_def)

text \<open>
  Claim C3. Every confidence of a judgment that validation lets through lies in [0,1] and
  is the confidence of the candidate, unchanged; a candidate whose confidence is missing,
  below 0 or above 1 is rejected with a parse error, not clamped. With a fallback record
  that is schema-valid, every confidence of the judgment a tag service returns lies in
  [0,1].
\<close>

theorem validated_confidence_in_unit_interval:
  "(validate cand = Inr j \<longrightarrow>
      (\<forall>c\<in>set (confidences j). 0 \<le> c \<and> c \<le> 1)
      \<and> map Some (confidences j) = candidate_confidences cand)
   \<and> ((\<exists>c\<in>set (candidate_confidences cand). c = None \<or> (\<exists>x. c = Some x \<and> (x < 0 \<or> 1 < x)))
        \<longrightarrow> validate cand = Inl ParseError)
   \<and> (schema_valid fallback \<longrightarrow>
        (\<forall>c\<in>set (confidences (fst (respond cand fallback))). 0 \<le> c \<and> c \<le> 1))"
proof (intro conjI)
  show "validate cand = Inr j \<longrightarrow>
      (\<forall>c\<in>set (confidences j). 0 \<le> c \<and> c \<le> 1)
      \<and> map Some (confidences j) = candidate_confidences cand"
    by (cases cand) (auto simp: in_unit_interval_def split: if_splits)
  show "(\<exists>c\<in>set (candidate_confidences cand). c = None \<or> (\<exists>x. c = Some x \<and> (x < 0 \<or> 1 < x)))
        \<longrightarrow> validate cand = Inl ParseError"
    by (cases cand) (auto simp: in_unit_interval_def split: if_splits)
  show "schema_valid fallback \<longrightarrow>
        (\<forall>c\<in>set (confidences (fst (respond cand fallback))). 0 \<le> c \<and> c \<le> 1)"
    using respond_schema_valid schema_valid_confidences by blast
qed

theorem validated_confidence_in_unit_interval_witness:
  "validate scenario_B
     = Inr (Harvest True (9 / 10) (str ''ready'') 0 (str ''mature'') (17 / 2))
   \<and> confidences (Harvest True (9 / 10) (str ''ready'') 0 (str ''mature'') (17 / 2)) = [9 / 10]
   \<and> (0::real) \<le> 9 / 10 \<and> (9 / 10 :: real) \<le> 1
   \<and> validate (GeneralCandidate (Some (str ''water daily'')) (Some (3 / 2)) (Some []) (Some []))
       = Inl ParseError
   \<and> validate (DiseaseCandidate (Some (str ''none'')) None (Some []) (Some []) (Some [])
                 (Some []))
       = Inl ParseError
   \<and> schema_valid fallback_example
   \<and> respond reference_example fallback_example = (fallback_example, True)
   \<and> confidences fallback_example = [0]"
  using validated_confidence_in_unit_interval
          [of scenario_B "Harvest True (9 / 10) (str ''ready'') 0 (str ''mature'') (17 / 2)"
              fallback_example]
        validated_confidence_in_unit_interval
          [of "GeneralCandidate (Some (str ''water daily'')) (Some (3 / 2)) (Some []) (Some [])"]
        validated_confidence_in_unit_interval
          [of "DiseaseCandidate (Some (str ''none'')) None (Some []) (Some []) (Some [])
                 (Some [])"]
  by (simp add: scenario_B_def in_unit_interval_def fallback_example_def respond_def
        reference_example_def)

text \<open>
  Claim C4. A harvest judgment that validation lets through and that is ready to harvest
  has no days remaining; with a fallback record that is schema-valid, so has every harvest
  judgment a tag service returns.
\<close>

theorem validated_harvest_ready_implies_no_days_remaining:
  "(validate cand = Inr (Harvest ready c rc days stage score) \<and> ready \<longrightarrow> days = 0)
   \<and> (schema_valid fallback
        \<and> fst (respond cand fallback) = Harvest ready c rc days stage score \<and> ready
      \<longrightarrow> days = 0)"
proof (intro conjI impI)
  assume "validate cand = Inr (Harvest ready c rc days stage score) \<and> ready"
  then show "days = 0"
    using validate_schema_valid [of cand "Harvest ready c rc days stage score"] by simp
next
  assume "schema_valid fallback
            \<and> fst (respond cand fallback) = Harvest ready c rc days stage score \<and> ready"
  then show "days = 0" using respond_schema_valid [of fallback cand] by simp
qed

theorem validated_harvest_ready_implies_no_days_remaining_witness:
  "validate scenario_B
     = Inr (Harvest True (9 / 10) (str ''ready'') 0 (str ''mature'') (17 / 2))
   \<and> validate reference_example
       \<noteq> Inr (Harvest True (85 / 100)
                [0x53CE, 0x7A6B, 0x306E, 0x30BF, 0x30A4, 0x30DF, 0x30F3, 0x30B0, 0x3067, 0x3059]
                2 (str ''mature'') (17 / 2))
   \<and> schema_valid fallback_example
   \<and> fst (respond scenario_B fallback_example)
       = Harvest True (9 / 10) (str ''ready'') 0 (str ''mature'') (17 / 2)"
  using validated_harvest_ready_implies_no_days_remaining
          [of scenario_B True "9 / 10" "str ''ready''" 0 "str ''mature''" "17 / 2"
              fallback_example]
        validated_harvest_ready_implies_no_days_remaining
          [of reference_example True "85 / 100"
              "[0x53CE, 0x7A6B, 0x306E, 0x30BF, 0x30A4, 0x30DF, 0x30F3, 0x30B0, 0x3067, 0x3059]"
              2 "str ''mature''" "17 / 2"]
  by (auto simp: scenario_B_def in_unit_interval_def fallback_example_def respond_def)

text \<open>
  The example of the function reference, ready to harvest with 2 days remaining, does not
  pass this validation.
\<close>

lemma reference_example_rejected: "validate reference_example = Inl ParseError"
  by (simp add: reference_example_def in_unit_interval_def)

subsection \<open>Doubles\<close>

text \<open>
  The binary exponent is the one of the standard, \<open>\<lfloor>log\<^sub>2 |x|\<rfloor>\<close>; rounding moves a
  number by at most half a unit in the last place; and the rounding of a number in the
  normal range, and of one beyond it, is computed from its exponent.
\<close>

lemma pow2_powr: "pow2 e = 2 powr (real_of_int e)"
  by (auto simp: pow2_def powr_realpow [symmetric] powr_minus field_simps)

lemma pow2_pos: "0 < pow2 e"
  by (simp add: pow2_def)

lemma pow2_add: "pow2 (a + b) = pow2 a * pow2 b"
  by (simp add: pow2_powr powr_add)

lemma pow2_mono: "a \<le> b \<Longrightarrow> pow2 a \<le> pow2 b"
  by (simp add: pow2_powr)

lemma pow2_less_cancel: "pow2 a < pow2 b \<Longrightarrow> a < b"
  using pow2_mono [of b a] by (cases "a < b") auto

lemma exponent_bounds:
  assumes "x \<noteq> 0"
  shows "pow2 (exponent x) \<le> \<bar>x\<bar> \<and> \<bar>x\<bar> < pow2 (exponent x + 1)"
proof (cases "1 \<le> \<bar>x\<bar>")
  case True
  let ?n = "\<lfloor>\<bar>x\<bar>\<rfloor>"
  have n: "0 < ?n" using True by simp
  have b1: "1 \<le> bitlen ?n" using n by (auto simp: bitlen_alt_def)
  from bitlen_bounds [OF n] have lo: "2 ^ nat (bitlen ?n - 1) \<le> ?n" and hi: "?n < 2 ^ nat (bitlen ?n)"
    by simp_all
  have e: "exponent x = bitlen ?n - 1" using True by (simp add: exponent_def)
  have "pow2 (bitlen ?n - 1) = real_of_int (2 ^ nat (bitlen ?n - 1))"
    using b1 by (simp add: pow2_def)
  also have "\<dots> \<le> real_of_int ?n" using lo by (simp only: of_int_le_iff)
  also have "\<dots> \<le> \<bar>x\<bar>" by simp
  finally have 1: "pow2 (exponent x) \<le> \<bar>x\<bar>" by (simp add: e)
  from hi have "?n + 1 \<le> 2 ^ nat (bitlen ?n)" by simp
  then have "real_of_int (?n + 1) \<le> real_of_int (2 ^ nat (bitlen ?n))" by (simp only: of_int_le_iff)
  then have "real_of_int ?n + 1 \<le> 2 ^ nat (bitlen ?n)" by simp
  moreover have "\<bar>x\<bar> < real_of_int ?n + 1" by linarith
  ultimately have "\<bar>x\<bar> < 2 ^ nat (bitlen ?n)" by linarith
  moreover have "pow2 (bitlen ?n) = 2 ^ nat (bitlen ?n)"
    using b1 by (simp add: pow2_def)
  ultimately have 2: "\<bar>x\<bar> < pow2 (exponent x + 1)" by (simp add: e)
  from 1 2 show ?thesis by simp
next
  case False
  define r where "r = 1 / \<bar>x\<bar>"
  define m where "m = \<lceil>r\<rceil> - 1"
  define k where "k = bitlen m"
  have a: "0 < \<bar>x\<bar>" "\<bar>x\<bar> < 1" using assms False by simp_all
  then have r: "1 < r" by (simp add: r_def)
  then have m: "0 < m" by (simp add: m_def less_ceiling_iff)
  have mr1: "real_of_int m < r" and mr2: "r \<le> real_of_int m + 1"
    unfolding m_def by linarith+
  have b1: "1 \<le> k" using m by (auto simp: k_def bitlen_alt_def)
  from bitlen_bounds [OF m] have lo: "2 ^ nat (k - 1) \<le> m" and hi: "m < 2 ^ nat k"
    by (simp_all add: k_def)
  have e: "exponent x = - k" using False by (simp add: exponent_def k_def m_def r_def)
  from hi have "m + 1 \<le> 2 ^ nat k" by simp
  then have "real_of_int (m + 1) \<le> real_of_int (2 ^ nat k)" by (simp only: of_int_le_iff)
  then have "real_of_int m + 1 \<le> 2 ^ nat k" by simp
  with mr2 have "r \<le> 2 ^ nat k" by linarith
  then have "1 / 2 ^ nat k \<le> \<bar>x\<bar>" using a(1)
    by (simp add: r_def field_simps)
  moreover have "pow2 (- k) = 1 / 2 ^ nat k" using b1 by (simp add: pow2_def)
  ultimately have 1: "pow2 (exponent x) \<le> \<bar>x\<bar>" by (simp add: e)
  from lo have "real_of_int (2 ^ nat (k - 1)) \<le> real_of_int m" by (simp only: of_int_le_iff)
  then have "2 ^ nat (k - 1) \<le> real_of_int m" by simp
  with mr1 have "2 ^ nat (k - 1) < r" by linarith
  then have "\<bar>x\<bar> < 1 / 2 ^ nat (k - 1)" using a(1)
    by (simp add: r_def field_simps)
  moreover have "pow2 (- k + 1) = 1 / 2 ^ nat (k - 1)"
    using b1 by (auto simp: pow2_def nat_diff_distrib)
  ultimately have 2: "\<bar>x\<bar> < pow2 (exponent x + 1)" by (simp add: e)
  from 1 2 show ?thesis by simp
qed

lemma exponent_log: "x \<noteq> 0 \<Longrightarrow> \<lfloor>log 2 \<bar>x\<bar>\<rfloor> = exponent x"
  using exponent_bounds [of x] by (simp add: floor_log_eq_powr_iff pow2_powr)

lemma exponent_eqI: "pow2 e \<le> \<bar>x\<bar> \<Longrightarrow> \<bar>x\<bar> < pow2 (e + 1) \<Longrightarrow> exponent x = e"
proof -
  assume a: "pow2 e \<le> \<bar>x\<bar>" and b: "\<bar>x\<bar> < pow2 (e + 1)"
  from a pow2_pos [of e] have x: "x \<noteq> 0" by auto
  from exponent_bounds [OF x] a b have "pow2 e < pow2 (exponent x + 1)" "pow2 (exponent x) < pow2 (e + 1)"
    by linarith+
  then have "e < exponent x + 1" "exponent x < e + 1" by (auto dest: pow2_less_cancel)
  then show ?thesis by simp
qed

lemma round_half_even_error: "\<bar>real_of_int (round_half_even r) - r\<bar> \<le> 1 / 2"
  unfolding round_half_even_def Let_def by (auto simp: abs_le_iff)

lemma round_half_even_ge: "real_of_int k \<le> r \<Longrightarrow> k \<le> round_half_even r"
proof -
  assume "real_of_int k \<le> r"
  then have "k \<le> \<lfloor>r\<rfloor>" by (simp add: le_floor_iff)
  then show ?thesis by (auto simp: round_half_even_def Let_def)
qed

lemma round_half_even_le: "r \<le> real_of_int k \<Longrightarrow> round_half_even r \<le> k"
proof -
  assume a: "r \<le> real_of_int k"
  then have f: "\<lfloor>r\<rfloor> \<le> k" by (simp add: floor_le_iff)
  show ?thesis
  proof (cases "\<lfloor>r\<rfloor> = k")
    case True
    with a have "r - of_int \<lfloor>r\<rfloor> \<le> 0" by simp
    then show ?thesis using True by (simp add: round_half_even_def Let_def)
  next
    case False
    with f have "\<lfloor>r\<rfloor> + 1 \<le> k" by simp
    then show ?thesis by (auto simp: round_half_even_def Let_def)
  qed
qed

lemma round_to_double_normal:
  assumes lo: "pow2 e \<le> \<bar>x\<bar>" and hi: "\<bar>x\<bar> < pow2 (e + 1)"
    and e: "- 1022 \<le> e" "e \<le> 1023"
    and n: "round_half_even (x / pow2 (e - 52)) = n" "n \<noteq> 0" "\<bar>n\<bar> < 2 ^ 53"
  shows "round_to_double neg x = Num (of_int n * pow2 (e - 52))"
proof -
  have ex: "exponent x = e" using lo hi by (rule exponent_eqI)
  from lo pow2_pos [of e] have x0: "x \<noteq> 0" by auto
  have "\<bar>real_of_int n\<bar> < 2 ^ 53" using n(3) by (metis of_int_abs of_int_less_numeral_power_cancel_iff)
  then have "\<bar>real_of_int n * pow2 (e - 52)\<bar> < 2 ^ 53 * pow2 (e - 52)"
    using pow2_pos [of "e - 52"] by (simp add: abs_mult)
  also have "2 ^ 53 * pow2 (e - 52) = pow2 53 * pow2 (e - 52)" by (simp add: pow2_def)
  also have "\<dots> = pow2 (e + 1)" by (simp add: pow2_add [symmetric] add.commute)
  also have "\<dots> \<le> pow2 1024" using e by (intro pow2_mono) simp
  finally have small: "\<not> pow2 1024 \<le> \<bar>real_of_int n * pow2 (e - 52)\<bar>" by simp
  have nz: "real_of_int n * pow2 (e - 52) \<noteq> 0" using n(2) pow2_pos [of "e - 52"] by simp
  have m: "max e (- 1022) = e" using e by simp
  show ?thesis
    unfolding round_to_double_def Let_def ex m n(1)
    using x0 small nz by simp
qed

lemma round_to_double_overflow:
  assumes "pow2 1024 \<le> \<bar>x\<bar>"
  shows "round_to_double neg x = infinity_of neg"
proof -
  from assms pow2_pos [of 1024] have x0: "x \<noteq> 0" by auto
  define e where "e = exponent x"
  from exponent_bounds [OF x0] have b: "pow2 e \<le> \<bar>x\<bar>" "\<bar>x\<bar> < pow2 (e + 1)"
    by (simp_all add: e_def)
  with assms have "pow2 1024 < pow2 (e + 1)" by linarith
  then have e: "1024 \<le> e" by (auto dest: pow2_less_cancel)
  then have m: "max e (- 1022) = e" by simp
  define u where "u = pow2 (e - 52)"
  have u: "0 < u" by (simp add: u_def pow2_pos)
  have eu: "pow2 e = 2 ^ 52 * u"
    using pow2_add [of 52 "e - 52"] by (simp add: u_def pow2_def)
  define n where "n = round_half_even (x / u)"
  have "2 ^ 52 \<le> \<bar>n\<bar>"
  proof (cases "0 \<le> x")
    case True
    with b(1) eu u have "real_of_int (2 ^ 52) \<le> x / u" by (simp add: field_simps)
    then have "2 ^ 52 \<le> n" unfolding n_def by (rule round_half_even_ge)
    then show ?thesis by simp
  next
    case False
    with b(1) eu u have "x / u \<le> real_of_int (- (2 ^ 52))" by (simp add: field_simps)
    then have "n \<le> - (2 ^ 52)" unfolding n_def by (rule round_half_even_le)
    then show ?thesis by simp
  qed
  then have "real_of_int (2 ^ 52) \<le> real_of_int \<bar>n\<bar>" by (simp only: of_int_le_iff)
  then have "2 ^ 52 \<le> \<bar>real_of_int n\<bar>" by simp
  then have "2 ^ 52 * u \<le> \<bar>real_of_int n\<bar> * u" using u by simp
  then have "pow2 e \<le> \<bar>real_of_int n * u\<bar>" using u by (simp add: eu abs_mult)
  moreover have "pow2 1024 \<le> pow2 e" using e by (rule pow2_mono)
  ultimately have big: "pow2 1024 \<le> \<bar>real_of_int n * u\<bar>" by linarith
  show ?thesis
    unfolding round_to_double_def Let_def e_def [symmetric] m u_def [symmetric] n_def [symmetric]
    using x0 big by simp
qed

lemma round_to_double_error:
  assumes "round_to_double neg x = Num y"
  shows "\<bar>y - x\<bar> \<le> pow2 (max (exponent x) (- 1022) - 53)"
proof (cases "x = 0")
  case True
  with assms show ?thesis
    using pow2_pos [of "max (exponent 0) (- 1022) - 53"]
    by (auto simp: round_to_double_def zero_of_def split: if_splits)
next
  case False
  define u where "u = pow2 (max (exponent x) (- 1022) - 52)"
  define n where "n = round_half_even (x / u)"
  have u: "0 < u" by (simp add: u_def pow2_pos)
  have h: "pow2 (max (exponent x) (- 1022) - 53) = u / 2"
    using pow2_add [of "- 1" "max (exponent x) (- 1022) - 52"] by (simp add: u_def pow2_def)
  from assms False have y: "y = real_of_int n * u"
    by (auto simp: round_to_double_def Let_def u_def n_def zero_of_def infinity_of_def
          split: if_splits)
  have "\<bar>real_of_int n - x / u\<bar> \<le> 1 / 2" unfolding n_def by (rule round_half_even_error)
  then have "\<bar>real_of_int n - x / u\<bar> * u \<le> 1 / 2 * u" using u by simp
  moreover have "\<bar>real_of_int n - x / u\<bar> * u = \<bar>real_of_int n * u - x\<bar>"
    using u by (simp add: abs_mult [symmetric] field_simps)
  ultimately show ?thesis by (simp add: y h)
qed

text \<open>
  Some quotients and products. 23 / 40 is not a double: the quotient is the double just
  below 0.575, and its product with 100 the double just below 57.5. 1 / 8 and 12.5 are
  doubles. The double nearest to \<open>10^308\<close>, divided by 0.5, is beyond the largest
  double.
\<close>

lemma divide_23_40: "js_divide (Num 23) (Num 40) = Num (2589569785738035 / 4503599627370496)"
  using round_to_double_normal [of "- 1" "23 / 40" 5179139571476070 False]
  by (simp add: js_divide_def pow2_def round_half_even_def Let_def)

lemma times_23_40:
  "js_times (Num (2589569785738035 / 4503599627370496)) (Num 100)
     = Num (8092405580431359 / 140737488355328)"
  using round_to_double_normal
          [of 5 "2589569785738035 / 4503599627370496 * 100" 8092405580431359 False]
  by (simp add: js_times_def pow2_def round_half_even_def Let_def)

lemma divide_1_8: "js_divide (Num 1) (Num 8) = Num (1 / 8)"
  using round_to_double_normal [of "- 3" "1 / 8" 4503599627370496 False]
  by (simp add: js_divide_def pow2_def round_half_even_def Let_def)

lemma times_1_8: "js_times (Num (1 / 8)) (Num 100) = Num (25 / 2)"
  using round_to_double_normal [of 3 "1 / 8 * 100" 7036874417766400 False]
  by (simp add: js_times_def pow2_def round_half_even_def Let_def)

lemma divide_minus_1_8: "js_divide (Num (- 1)) (Num 8) = Num (- (1 / 8))"
  using round_to_double_normal [of "- 3" "- 1 / 8" "- 4503599627370496" True]
  by (simp add: js_divide_def pow2_def round_half_even_def Let_def)

lemma times_minus_1_8: "js_times (Num (- (1 / 8))) (Num 100) = Num (- (25 / 2))"
  using round_to_double_normal [of 3 "- (1 / 8) * 100" "- 7036874417766400" True]
  by (simp add: js_times_def pow2_def round_half_even_def Let_def)

lemma divide_1e308_half: "js_divide (Num ten_to_308) (Num (1 / 2)) = PosInfinity"
  using round_to_double_overflow [of "ten_to_308 / (1 / 2)" False]
  by (simp add: js_divide_def pow2_def infinity_of_def ten_to_308_def)

subsection \<open>Percentages\<close>

text \<open>
  Some percentages: of a total that is a zero; of 23 in 40, where the exact 57.5 would
  round to 58 and the doubles give 57; of 1 and of -1 in 8, both ties, which go up, to 13
  and to -12; of \<open>10^308\<close> in 0.5, the infinity; of a total that is not a number.
\<close>

lemma percentage_of_zero:
  "calculatePercentage v (Num 0) = Some (Num 0)" "calculatePercentage v NegZero = Some (Num 0)"
  by (simp_all add: calculatePercentage_def)

lemma percentage_23_40: "calculatePercentage (Num 23) (Num 40) = Some (Num 57)"
  by (simp add: calculatePercentage_def divide_checked_def divide_23_40 times_23_40)

lemma percentage_1_8: "calculatePercentage (Num 1) (Num 8) = Some (Num 13)"
  by (simp add: calculatePercentage_def divide_checked_def divide_1_8 times_1_8)

lemma percentage_minus_1_8: "calculatePercentage (Num (- 1)) (Num 8) = Some (Num (- 12))"
  by (simp add: calculatePercentage_def divide_checked_def divide_minus_1_8 times_minus_1_8)

lemma percentage_1e308_half:
  "calculatePercentage (Num ten_to_308) (Num (1 / 2)) = Some PosInfinity"
  by (simp add: calculatePercentage_def divide_checked_def divide_1e308_half js_times_def
        infinity_of_def)

lemma percentage_of_NaN: "calculatePercentage (Num 1) NaN = Some NaN"
  by (simp add: calculatePercentage_def divide_checked_def js_divide_def js_times_def)

text \<open>
  Claim C9.\<open>calculatePercentage\<close> never divides by zero: it always returns a number; on
  a total that is a zero the number is 0, whatever the value; on any other total it is
  \<open>Math.round((value / total) * 100)\<close> in the arithmetic of doubles, and where that
  product \<open>p\<close> is finite the number returned is the integer \<open>k\<close> with
  \<open>k - 1/2 \<le> p < k + 1/2\<close>, as the negative zero when \<open>-1/2 \<le> p < 0\<close>.
\<close>

theorem calculatePercentage_no_division_by_zero:
  "calculatePercentage v t \<noteq> None
   \<and> (is_zero t \<longrightarrow> calculatePercentage v t = Some (Num 0))
   \<and> (\<not> is_zero t \<longrightarrow>
        calculatePercentage v t = Some (Math_round (js_times (js_divide v t) (Num 100))))
   \<and> (\<not> is_zero t \<and> js_times (js_divide v t) (Num 100) = Num p \<longrightarrow>
        (\<exists>k. of_int k - 1 / 2 \<le> p \<and> p < of_int k + 1 / 2
           \<and> (calculatePercentage v t = Some (Num (of_int k))
                \<or> (k = 0 \<and> calculatePercentage v t = Some NegZero))))"
proof (intro conjI impI)
  show "calculatePercentage v t \<noteq> None"
    by (simp add: calculatePercentage_def divide_checked_def)
  show "calculatePercentage v t = Some (Num 0)" if "is_zero t"
    using that by (simp add: calculatePercentage_def)
  show "calculatePercentage v t = Some (Math_round (js_times (js_divide v t) (Num 100)))"
    if "\<not> is_zero t"
    using that by (simp add: calculatePercentage_def divide_checked_def)
  show "\<exists>k. of_int k - 1 / 2 \<le> p \<and> p < of_int k + 1 / 2
           \<and> (calculatePercentage v t = Some (Num (of_int k))
                \<or> (k = 0 \<and> calculatePercentage v t = Some NegZero))"
    if a: "\<not> is_zero t \<and> js_times (js_divide v t) (Num 100) = Num p"
  proof -
    from a have c: "calculatePercentage v t = Some (Math_round (Num p))"
      by (simp add: calculatePercentage_def divide_checked_def)
    show ?thesis
    proof (cases "- 1 / 2 \<le> p \<and> p < 0")
      case True
      then have "of_int 0 - 1 / 2 \<le> p \<and> p < of_int 0 + 1 / 2
           \<and> (calculatePercentage v t = Some (Num (of_int 0))
                \<or> ((0::int) = 0 \<and> calculatePercentage v t = Some NegZero))"
        using c by simp
      then show ?thesis by blast
    next
      case False
      let ?k = "\<lfloor>p + 1 / 2\<rfloor>"
      have "of_int ?k - 1 / 2 \<le> p \<and> p < of_int ?k + 1 / 2" by linarith
      moreover have "calculatePercentage v t = Some (Num (of_int ?k))" using c False by auto
      ultimately show ?thesis by blast
    qed
  qed
qed

theorem calculatePercentage_no_division_by_zero_witness:
  "calculatePercentage (Num 23) (Num 0) = Some (Num 0)
   \<and> calculatePercentage (Num 23) NegZero = Some (Num 0)
   \<and> calculatePercentage NaN (Num 0) = Some (Num 0)
   \<and> \<not> is_zero (Num 40)
   \<and> js_times (js_divide (Num 23) (Num 40)) (Num 100) = Num (8092405580431359 / 140737488355328)
   \<and> calculatePercentage (Num 23) (Num 40) = Some (Num 57)
   \<and> calculatePercentage (Num 1) (Num 8) = Some (Num 13)
   \<and> calculatePercentage (Num (- 1)) (Num 8) = Some (Num (- 12))
   \<and> calculatePercentage (Num ten_to_308) (Num (1 / 2)) = Some PosInfinity
   \<and> calculatePercentage (Num 1) NaN = Some NaN"
  using calculatePercentage_no_division_by_zero [of "Num 23" "Num 0" 0]
    calculatePercentage_no_division_by_zero [of "Num 23" NegZero 0]
    calculatePercentage_no_division_by_zero [of NaN "Num 0" 0]
    calculatePercentage_no_division_by_zero
      [of "Num 23" "Num 40" "8092405580431359 / 140737488355328"]
  by (simp add: percentage_of_zero percentage_23_40 percentage_1_8 percentage_minus_1_8
        percentage_1e308_half percentage_of_NaN divide_23_40 times_23_40)

end
